theory Spec2Isabelle
  imports Main
begin

section \<open>libgroup: the client library of the group membership daemon\<close>

text \<open>
  A shallow embedding of \<^verbatim>\<open>src/group/lib/libgroup.c\<close>. Every function of the file is
  a HOL function on an explicit \<open>world\<close>: the heap of \<^verbatim>\<open>struct group_handle\<close> objects (the
  live blocks, and what freed blocks still hold), the
  application's memory holding its callback structures, the set of open descriptors,
  \<^verbatim>\<open>errno\<close>, and the trace of the system calls and callback invocations made so far.
  What the kernel and the allocator answer (the return value of \<^verbatim>\<open>socket\<close>,
  \<^verbatim>\<open>connect\<close>, \<^verbatim>\<open>write\<close>, \<^verbatim>\<open>read\<close>, \<^verbatim>\<open>malloc\<close>) is an argument of the
  model. Where C leaves the behaviour undefined the model returns a \<open>fault\<close>.
\<close>

subsection \<open>Constants of the file\<close>

definition LIBGROUP_MAGIC :: int where
  "LIBGROUP_MAGIC = 0x67727570"

definition MAXARGS :: nat where
  "MAXARGS = 100"

definition MAXLINE :: nat where
  "MAXLINE = 256"

definition PROG_NAME_LEN :: nat where
  \<comment> \<open>\<^verbatim>\<open>char prog_name[32]\<close> and the bound of the \<^verbatim>\<open>strncpy\<close> in \<^verbatim>\<open>group_init\<close>\<close>
  "PROG_NAME_LEN = 32"

definition EINVAL :: int where
  "EINVAL = 22"

definition EBADF :: int where
  "EBADF = 9"

definition NULL :: nat where
  "NULL = 0"

definition NUL :: char where
  "NUL = CHR 0x00"

definition INT_MAX :: int where
  "INT_MAX = 2147483647"

definition INT_MIN :: int where
  "INT_MIN = - 2147483648"

subsection \<open>Data\<close>

text \<open>
  \<^verbatim>\<open>group_callbacks_t\<close>: a structure of five function pointers (the file calls
  \<^verbatim>\<open>h->cbs.stop\<close>, \<^verbatim>\<open>.start\<close>, \<^verbatim>\<open>.finish\<close>, \<^verbatim>\<open>.terminate\<close>, \<^verbatim>\<open>.set_id\<close>). A function
  pointer is the address of the application's handler.
\<close>

record group_callbacks =
  stop :: nat
  start :: nat
  finish :: nat
  terminate :: nat
  set_id :: nat

text \<open>
  \<^verbatim>\<open>struct group_handle\<close>. The member \<^verbatim>\<open>private\<close> is \<open>private_data\<close> here; \<open>cbs\<close> is a
  structure held by value; \<open>prog_name\<close> is the 32 bytes of the array.
\<close>

record group_handle =
  magic :: int
  fd :: int
  level :: int
  private_data :: nat
  cbs :: group_callbacks
  prog_name :: string

text \<open>Undefined behaviour of the C program, by kind.\<close>

datatype fault =
    DanglingHandle          \<comment> \<open>a handle that points to no block, live or freed, is dereferenced\<close>
  | DoubleFree              \<comment> \<open>\<^verbatim>\<open>free\<close> of a block that is not live\<close>
  | NullPointer             \<comment> \<open>a null or invalid pointer is dereferenced\<close>
  | LiteralWrite            \<comment> \<open>\<^verbatim>\<open>sprintf\<close> stores into a string literal kept in read-only memory\<close>
  | LiteralOverflow         \<comment> \<open>\<^verbatim>\<open>sprintf\<close> writes past the end of the string literal\<close>
  | BadFormat               \<comment> \<open>a conversion of the format has no argument of its type\<close>
  | BufferOverflow          \<comment> \<open>\<^verbatim>\<open>sprintf\<close> writes past the end of \<^verbatim>\<open>buf\<close>\<close>
  | UnterminatedBuffer      \<comment> \<open>\<^verbatim>\<open>buf\<close> holds no terminating NUL when it is scanned\<close>
  | ArgvOverflow            \<comment> \<open>more than \<open>MAXARGS\<close> entries of \<^verbatim>\<open>argv\<close> are stored\<close>
  | UninitArg nat           \<comment> \<open>\<^verbatim>\<open>argv[i]\<close> is used with \<^verbatim>\<open>i >= argc\<close>: it was never set\<close>
  | IntOverflow             \<comment> \<open>\<^verbatim>\<open>atoi\<close> of a number outside the range of \<^verbatim>\<open>int\<close>\<close>

text \<open>The arguments a callback is invoked with, after the handle and the private pointer.\<close>

datatype cb_args =
    StopArgs string
  | StartArgs string int int int "int list"
      \<comment> \<open>name, event type, event number, count, node ids\<close>
  | FinishArgs string int
  | TerminateArgs string
  | SetIdArgs string int

text \<open>
  The trace: each system call with the arguments the library passed, and each callback
  invocation (function pointer, handle, private pointer, arguments).
\<close>

datatype event =
    SysSocket
  | SysConnect int
  | SysWrite int string
  | SysRead int nat
  | SysClose int
  | Callback nat nat nat cb_args

text \<open>
  The answer of a system call: \<open>Success n\<close> returns \<open>n\<close>; \<open>Failure e\<close> returns \<open>-1\<close> and
  sets \<^verbatim>\<open>errno\<close> to \<open>e\<close>. The answer of \<^verbatim>\<open>read\<close> carries the bytes received.
\<close>

datatype sysret = Success int | Failure int

datatype readret = ReadOk string | ReadErr int

text \<open>
  The world. \<open>heap\<close> holds the live blocks, the handles \<^verbatim>\<open>malloc\<close> has returned and
  \<^verbatim>\<open>free\<close> has not released. \<open>freed\<close> holds what a released block still contains: \<^verbatim>\<open>free\<close>
  leaves the bytes in place until \<^verbatim>\<open>malloc\<close> hands the block out again, and a read through
  a pointer kept from before sees them. \<open>rodata_writable\<close> is a property of the platform:
  whether a store into a string literal goes through (otherwise it traps).
\<close>

record world =
  heap :: "nat \<rightharpoonup> group_handle"
  freed :: "nat \<rightharpoonup> group_handle"
  cbmem :: "nat \<rightharpoonup> group_callbacks"
  fds :: "int set"
  errno :: int
  trace :: "event list"
  rodata_writable :: bool

subsection \<open>The C library and the system calls\<close>

definition c_str :: "string \<Rightarrow> string" where
  \<comment> \<open>the C string held in an array: the bytes before the first NUL\<close>
  "c_str buf = takeWhile (\<lambda>c. c \<noteq> NUL) buf"

definition memset_buf :: string where
  \<comment> \<open>\<^verbatim>\<open>memset(buf, 0, sizeof(buf))\<close> on \<^verbatim>\<open>char buf[MAXLINE]\<close>\<close>
  "memset_buf = replicate MAXLINE NUL"

definition strncpy :: "nat \<Rightarrow> string \<Rightarrow> string" where
  \<comment> \<open>the \<open>n\<close> bytes stored by \<^verbatim>\<open>strncpy(dst, src, n)\<close>: truncated, or padded with NUL\<close>
  "strncpy n src = take n (c_str src @ replicate n NUL)"

fun dec_nat :: "nat \<Rightarrow> string" where
  "dec_nat n =
     (if n < 10 then [''0123456789'' ! n]
      else dec_nat (n div 10) @ [''0123456789'' ! (n mod 10)])"

declare dec_nat.simps [simp del]

definition format_d :: "int \<Rightarrow> string" where
  \<comment> \<open>the conversion \<^verbatim>\<open>%d\<close>\<close>
  "format_d i = (if i < 0 then CHR ''-'' # dec_nat (nat (- i)) else dec_nat (nat i))"

definition sprintf_buf :: "string \<Rightarrow> fault + string" where
  \<comment> \<open>\<^verbatim>\<open>sprintf(buf, ...)\<close> into the zeroed \<^verbatim>\<open>buf\<close>, given the formatted text: the text and
      its NUL must fit\<close>
  "sprintf_buf text =
     (if length text < MAXLINE then Inr (text @ replicate (MAXLINE - length text) NUL)
      else Inl BufferOverflow)"

definition isspace :: "char \<Rightarrow> bool" where
  "isspace c \<longleftrightarrow> c \<in> set [CHR '' '', CHR 0x09, CHR 0x0A, CHR 0x0B, CHR 0x0C, CHR 0x0D]"

definition isdigit :: "char \<Rightarrow> bool" where
  "isdigit c \<longleftrightarrow> (48::nat) \<le> of_char c \<and> of_char c \<le> (57::nat)"

fun atoi_digits :: "int \<Rightarrow> string \<Rightarrow> int" where
  "atoi_digits acc [] = acc"
| "atoi_digits acc (c # cs) =
     (if isdigit c then atoi_digits (acc * 10 + (of_char c - 48)) cs else acc)"

definition atoi :: "string \<Rightarrow> int option" where
  \<comment> \<open>leading white space, an optional sign, then digits; no digits give 0; \<open>None\<close> when
      the value is not an \<^verbatim>\<open>int\<close> (undefined in C)\<close>
  "atoi s =
     (let t = dropWhile isspace s;
          v = (case t of
                 [] \<Rightarrow> 0
               | c # cs \<Rightarrow>
                   if c = CHR ''-'' then - atoi_digits 0 cs
                   else if c = CHR ''+'' then atoi_digits 0 cs
                   else atoi_digits 0 t)
      in if INT_MIN \<le> v \<and> v \<le> INT_MAX then Some v else None)"

definition ret_val :: "sysret \<Rightarrow> int" where
  "ret_val r = (case r of Success n \<Rightarrow> n | Failure e \<Rightarrow> - 1)"

definition set_errno :: "sysret \<Rightarrow> world \<Rightarrow> world" where
  "set_errno r w = (case r of Success n \<Rightarrow> w | Failure e \<Rightarrow> w\<lparr>errno := e\<rparr>)"

definition log_event :: "event \<Rightarrow> world \<Rightarrow> world" where
  "log_event e w = w\<lparr>trace := trace w @ [e]\<rparr>"

definition sys_socket :: "world \<Rightarrow> sysret \<Rightarrow> world" where
  \<comment> \<open>\<^verbatim>\<open>socket(PF_UNIX, SOCK_STREAM, 0)\<close>: a descriptor returned is open from now on\<close>
  "sys_socket w r =
     set_errno r (log_event SysSocket
       (case r of Success n \<Rightarrow> w\<lparr>fds := insert n (fds w)\<rparr> | Failure e \<Rightarrow> w))"

definition sys_connect :: "world \<Rightarrow> int \<Rightarrow> sysret \<Rightarrow> world" where
  "sys_connect w d r = set_errno r (log_event (SysConnect d) w)"

definition sys_write :: "world \<Rightarrow> int \<Rightarrow> string \<Rightarrow> sysret \<Rightarrow> world" where
  \<comment> \<open>\<^verbatim>\<open>write(d, bytes, length bytes)\<close>\<close>
  "sys_write w d bytes r = set_errno r (log_event (SysWrite d bytes) w)"

definition sys_close :: "world \<Rightarrow> int \<Rightarrow> world" where
  \<comment> \<open>\<^verbatim>\<open>close(d)\<close>: releases an open descriptor, fails with EBADF on any other number\<close>
  "sys_close w d =
     (if d \<in> fds w then log_event (SysClose d) (w\<lparr>fds := fds w - {d}\<rparr>)
      else (log_event (SysClose d) w)\<lparr>errno := EBADF\<rparr>)"

definition read_buf :: "readret \<Rightarrow> string" where
  \<comment> \<open>\<^verbatim>\<open>buf\<close> after \<^verbatim>\<open>memset\<close> and \<^verbatim>\<open>read(fd, &buf, sizeof(buf))\<close>: at most
      \<open>MAXLINE\<close> bytes are received, the rest of the array stays zero\<close>
  "read_buf r =
     (case r of
        ReadOk bytes \<Rightarrow> take MAXLINE bytes @ replicate (MAXLINE - length bytes) NUL
      | ReadErr e \<Rightarrow> memset_buf)"

definition sys_read :: "world \<Rightarrow> int \<Rightarrow> readret \<Rightarrow> world" where
  "sys_read w d r =
     (case r of
        ReadOk bytes \<Rightarrow> log_event (SysRead d MAXLINE) w
      | ReadErr e \<Rightarrow> (log_event (SysRead d MAXLINE) w)\<lparr>errno := e\<rparr>)"

subsection \<open>Tokenizer\<close>

text \<open>
  \<^verbatim>\<open>make_args\<close> is declared in \<^verbatim>\<open>groupd.h\<close>; its body is not in this file. The call is
  \<^verbatim>\<open>make_args(buf, &argc, argv, ' ')\<close>. In the model \<open>group_dispatch\<close> takes the
  tokenizer as its parameter \<open>mk_args\<close>: a function from the line in \<^verbatim>\<open>buf\<close> and the
  separator to the tokens \<^verbatim>\<open>argv[0..argc-1]\<close>, \<open>argc\<close> being their number.
\<close>

text \<open>
  Modelled from the spec: the body of \<^verbatim>\<open>make_args\<close>, which is missing. The specification
  says that it splits the line into tokens delimited by the separator, up to a bounded
  number of tokens (\<open>MAXARGS\<close>, the size of \<^verbatim>\<open>argv\<close>), the rest of a longer line being
  ignored. The first token starts at the beginning of the line, so every line, the empty
  one too, has a first token.
\<close>

fun split_sep :: "char \<Rightarrow> string \<Rightarrow> string list" where
  "split_sep sep [] = [[]]"
| "split_sep sep (c # cs) =
     (if c = sep then [] # split_sep sep cs
      else (case split_sep sep cs of
              [] \<Rightarrow> [[c]]
            | t # ts \<Rightarrow> (c # t) # ts))"

definition make_args :: "string \<Rightarrow> char \<Rightarrow> string list" where
  \<comment> \<open>Modelled from the spec: the tokens of \<^verbatim>\<open>make_args\<close>, at most \<open>MAXARGS\<close> of them\<close>
  "make_args line sep = take MAXARGS (split_sep sep line)"

definition arg :: "string list \<Rightarrow> nat \<Rightarrow> fault + string" where
  \<comment> \<open>\<^verbatim>\<open>argv[i]\<close>: the array is a local of \<^verbatim>\<open>group_dispatch\<close>, never initialised; only
      the entries below \<open>argc\<close> have been set\<close>
  "arg argv i = (if i < length argv then Inr (argv ! i) else Inl (UninitArg i))"

subsection \<open>Handle validation\<close>

definition storage :: "world \<Rightarrow> nat \<Rightarrow> group_handle option" where
  \<comment> \<open>what a read through the pointer \<open>p\<close> sees: a live block, or the bytes left in a
      freed one\<close>
  "storage w p = (case heap w p of Some h \<Rightarrow> Some h | None \<Rightarrow> freed w p)"

definition store_handle :: "world \<Rightarrow> nat \<Rightarrow> group_handle \<Rightarrow> world" where
  \<comment> \<open>a store through the pointer \<open>p\<close>\<close>
  "store_handle w p h =
     (if heap w p = None then w\<lparr>freed := (freed w)(p \<mapsto> h)\<rparr>
      else w\<lparr>heap := (heap w)(p \<mapsto> h)\<rparr>)"

definition sys_malloc :: "world \<Rightarrow> nat \<Rightarrow> group_handle \<Rightarrow> world" where
  \<comment> \<open>\<^verbatim>\<open>malloc\<close> has returned the block \<open>m\<close>, and the members of the new handle are
      assigned: what the block held before is gone\<close>
  "sys_malloc w m h = w\<lparr>heap := (heap w)(m \<mapsto> h), freed := (freed w)(m := None)\<rparr>"

definition sys_free :: "world \<Rightarrow> nat \<Rightarrow> world" where
  \<comment> \<open>\<^verbatim>\<open>free(p)\<close> of a live block: the block is released, its bytes stay\<close>
  "sys_free w p = w\<lparr>heap := (heap w)(p := None), freed := (freed w)(p := heap w p)\<rparr>"

text \<open>
  The macro \<^verbatim>\<open>VALIDATE_HANDLE\<close>: a null handle, or one whose \<open>magic\<close> differs, makes the
  enclosing function return \<open>-1\<close> with \<^verbatim>\<open>errno = EINVAL\<close>; otherwise the function goes on
  (\<open>body\<close>). \<^verbatim>\<open>h->magic\<close> is read through the pointer, whether the block is live or not:
  for a handle that \<^verbatim>\<open>group_exit\<close> has released the macro sees the bytes left in the
  freed block, or the handle of a later session that \<^verbatim>\<open>malloc\<close> has placed there. An
  object that is not a handle of this library is, for the macro, storage whose \<open>magic\<close>
  differs from the tag.
\<close>

definition VALIDATE_HANDLE ::
  "world \<Rightarrow> nat \<Rightarrow> (group_handle \<Rightarrow> (fault + int) \<times> world) \<Rightarrow> (fault + int) \<times> world" where
  "VALIDATE_HANDLE w handle body =
     (if handle = NULL then (Inr (- 1), w\<lparr>errno := EINVAL\<rparr>)
      else (case storage w handle of
              None \<Rightarrow> (Inl DanglingHandle, w)
            | Some h \<Rightarrow>
                if magic h \<noteq> LIBGROUP_MAGIC then (Inr (- 1), w\<lparr>errno := EINVAL\<rparr>)
                else body h))"

subsection \<open>The command encoder: \<^verbatim>\<open>group_join\<close>, \<^verbatim>\<open>group_leave\<close>, \<^verbatim>\<open>group_done\<close>\<close>

text \<open>
  The three functions call \<^verbatim>\<open>sprintf\<close> without the buffer: \<^verbatim>\<open>sprintf("join %s", name)\<close>
  has the string literal as its destination and \<open>name\<close> as its format. \<^verbatim>\<open>buf\<close> is not an
  argument, so it keeps the zeros of \<^verbatim>\<open>memset\<close>. The store into the literal is undefined
  in C: where literals are in read-only memory (\<open>rodata_writable\<close> false) the process
  faults there. Elsewhere the call formats the caller's \<open>name\<close> with the arguments that
  follow it (none, or \<open>event_nr\<close>) into the storage of the literal: a conversion in the
  name that has no argument of its type, and an output longer than the literal, are
  faults too; otherwise the store lands outside \<^verbatim>\<open>buf\<close> and the function goes on to
  \<^verbatim>\<open>write(h->fd, buf, strlen(buf))\<close>.
\<close>

fun format_c :: "string \<Rightarrow> int list \<Rightarrow> fault + string" where
  \<comment> \<open>the output of a format with \<^verbatim>\<open>int\<close> arguments: \<^verbatim>\<open>%%\<close>, and \<^verbatim>\<open>%d\<close> or \<^verbatim>\<open>%i\<close> with
      an argument left; any other conversion is a fault here\<close>
  "format_c [] args = Inr []"
| "format_c [c] args = (if c = CHR ''%'' then Inl BadFormat else Inr [c])"
| "format_c (c # d # ds) args =
     (if c \<noteq> CHR ''%'' then
        (case format_c (d # ds) args of Inl f \<Rightarrow> Inl f | Inr out \<Rightarrow> Inr (c # out))
      else if d = CHR ''%'' then
        (case format_c ds args of Inl f \<Rightarrow> Inl f | Inr out \<Rightarrow> Inr (CHR ''%'' # out))
      else if d = CHR ''d'' \<or> d = CHR ''i'' then
        (case args of
           [] \<Rightarrow> Inl BadFormat
         | a # as \<Rightarrow>
             (case format_c ds as of Inl f \<Rightarrow> Inl f | Inr out \<Rightarrow> Inr (format_d a @ out)))
      else Inl BadFormat)"

definition sprintf_literal ::
  "world \<Rightarrow> string \<Rightarrow> string \<Rightarrow> string \<Rightarrow> int list \<Rightarrow> fault + string" where
  \<comment> \<open>\<^verbatim>\<open>buf\<close> after \<^verbatim>\<open>sprintf(literal, format, args...)\<close>; the literal has room for its own
      length and a NUL\<close>
  "sprintf_literal w buf literal format args =
     (if \<not> rodata_writable w then Inl LiteralWrite
      else (case format_c (c_str format) args of
              Inl f \<Rightarrow> Inl f
            | Inr out \<Rightarrow> if length literal < length out then Inl LiteralOverflow else Inr buf))"

definition group_join ::
  "world \<Rightarrow> nat \<Rightarrow> string \<Rightarrow> string \<Rightarrow> sysret \<Rightarrow> (fault + int) \<times> world" where
  "group_join w handle name info wr =
     VALIDATE_HANDLE w handle (\<lambda>h.
       case sprintf_literal w memset_buf ''join %s'' name [] of
         Inl f \<Rightarrow> (Inl f, w)
       | Inr buf \<Rightarrow> (Inr (ret_val wr), sys_write w (fd h) (c_str buf) wr))"

definition group_leave ::
  "world \<Rightarrow> nat \<Rightarrow> string \<Rightarrow> string \<Rightarrow> sysret \<Rightarrow> (fault + int) \<times> world" where
  "group_leave w handle name info wr =
     VALIDATE_HANDLE w handle (\<lambda>h.
       case sprintf_literal w memset_buf ''leave %s'' name [] of
         Inl f \<Rightarrow> (Inl f, w)
       | Inr buf \<Rightarrow> (Inr (ret_val wr), sys_write w (fd h) (c_str buf) wr))"

definition group_done ::
  "world \<Rightarrow> nat \<Rightarrow> string \<Rightarrow> int \<Rightarrow> sysret \<Rightarrow> (fault + int) \<times> world" where
  "group_done w handle name event_nr wr =
     VALIDATE_HANDLE w handle (\<lambda>h.
       case sprintf_literal w memset_buf ''done %s %d'' name [event_nr] of
         Inl f \<Rightarrow> (Inl f, w)
       | Inr buf \<Rightarrow> (Inr (ret_val wr), sys_write w (fd h) (c_str buf) wr))"

subsection \<open>The session: \<^verbatim>\<open>group_init\<close>, \<^verbatim>\<open>group_exit\<close>, \<^verbatim>\<open>group_get_fd\<close>\<close>

definition ENOMEM :: int where
  "ENOMEM = 12"

definition init_fail :: "world \<Rightarrow> nat \<Rightarrow> group_handle \<Rightarrow> (fault + nat) \<times> world" where
  \<comment> \<open>the label \<^verbatim>\<open>fail\<close> of \<^verbatim>\<open>group_init\<close>, for the handle \<open>h\<close> stored at address \<open>m\<close>\<close>
  "init_fail w m h =
     (let saved_errno = errno w;
          w1 = sys_close w (fd h);
          w2 = sys_free w1 m
      in (Inr NULL, w2\<lparr>errno := saved_errno\<rparr>))"

text \<open>
  \<^verbatim>\<open>group_init(private, prog_name, level, cbs)\<close>, with the parameters named \<open>priv\<close>,
  \<open>pname\<close>, \<open>lvl\<close> and \<open>cbs_ptr\<close> (the address of the application's callback structure).
  \<open>m\<close> is what \<^verbatim>\<open>malloc\<close> returns (\<open>NULL\<close> or the address of a new block), \<open>sock\<close>,
  \<open>conn\<close> and \<open>wr\<close> what \<^verbatim>\<open>socket\<close>, \<^verbatim>\<open>connect\<close> and \<^verbatim>\<open>write\<close> return. The result is
  the handle, \<open>NULL\<close> on failure. The handshake is formatted from the parameter
  \<^verbatim>\<open>prog_name\<close>; the handle keeps the copy made by \<^verbatim>\<open>strncpy\<close>.
\<close>

definition group_init ::
  "world \<Rightarrow> nat \<Rightarrow> string \<Rightarrow> int \<Rightarrow> nat \<Rightarrow> nat \<Rightarrow> sysret \<Rightarrow> sysret \<Rightarrow> sysret
     \<Rightarrow> (fault + nat) \<times> world" where
  "group_init w priv pname lvl cbs_ptr m sock conn wr =
     (if m = NULL then (Inr NULL, w\<lparr>errno := ENOMEM\<rparr>)
      else (case cbmem w cbs_ptr of
        None \<Rightarrow> (Inl NullPointer, w)
      | Some c \<Rightarrow>
          let h = \<lparr>magic = LIBGROUP_MAGIC, fd = ret_val sock, level = lvl,
                   private_data = priv, cbs = c,
                   prog_name = strncpy PROG_NAME_LEN pname\<rparr>;
              w1 = sys_socket (sys_malloc w m h) sock
          in if fd h < 0 then init_fail w1 m h
             else
               let w2 = sys_connect w1 (fd h) conn
               in if ret_val conn < 0 then init_fail w2 m h
                  else (case sprintf_buf
                               (''setup '' @ c_str pname @ '' '' @ format_d lvl) of
                    Inl f \<Rightarrow> (Inl f, w2)
                  | Inr buf \<Rightarrow>
                      let w3 = sys_write w2 (fd h) (c_str buf) wr
                      in if ret_val wr < 0 then init_fail w3 m h
                         else (Inr m, w3))))"

definition group_exit :: "world \<Rightarrow> nat \<Rightarrow> (fault + int) \<times> world" where
  "group_exit w handle =
     VALIDATE_HANDLE w handle (\<lambda>h.
       let w1 = store_handle w handle (h\<lparr>magic := 0\<rparr>);
           w2 = sys_close w1 (fd h)
       in if heap w2 handle = None then (Inl DoubleFree, w2)
          else (Inr 0, sys_free w2 handle))"

definition group_get_fd :: "world \<Rightarrow> nat \<Rightarrow> (fault + int) \<times> world" where
  "group_get_fd w handle = VALIDATE_HANDLE w handle (\<lambda>h. (Inr (fd h), w))"

subsection \<open>The dispatcher: \<^verbatim>\<open>group_dispatch\<close>\<close>

definition invoke :: "world \<Rightarrow> nat \<Rightarrow> nat \<Rightarrow> nat \<Rightarrow> cb_args \<Rightarrow> world" where
  \<comment> \<open>a call through a function pointer of \<^verbatim>\<open>h->cbs\<close>; what the handler does is the
      application's, its result is not used\<close>
  "invoke w f handle priv args = log_event (Callback f handle priv args) w"

definition nodeid_count :: "nat \<Rightarrow> int" where
  \<comment> \<open>\<^verbatim>\<open>count = argc - 4\<close>\<close>
  "nodeid_count argc = int argc - 4"

function nodeids_loop :: "string list \<Rightarrow> nat \<Rightarrow> nat \<Rightarrow> int list \<Rightarrow> fault + int list" where
  "nodeids_loop argv argc i nodeids =
     (if i < argc then
        (case arg argv i of
           Inl f \<Rightarrow> Inl f
         | Inr a \<Rightarrow>
             (case atoi a of
                None \<Rightarrow> Inl IntOverflow
              | Some v \<Rightarrow> nodeids_loop argv argc (i + 1) (nodeids[i - 4 := v])))
      else Inr nodeids)"
  by pat_completeness auto
termination
  by (relation "measure (\<lambda>(argv, argc, i, nodeids). argc - i)") auto

declare nodeids_loop.simps [simp del]

text \<open>
  \<^verbatim>\<open>group_dispatch(handle)\<close>. \<open>mk_args\<close> is the tokenizer, \<open>rd\<close> is what \<^verbatim>\<open>read\<close> returns
  and \<open>alloc_ok\<close> whether the \<^verbatim>\<open>malloc\<close> of the node id array returns a block (with no
  block, the first store of the loop goes through a null pointer). The value \<open>rv\<close> of
  \<^verbatim>\<open>read\<close> is assigned and never looked at. The pointers \<^verbatim>\<open>argv[1]\<close>, \<^verbatim>\<open>argv[2]\<close>,
  \<^verbatim>\<open>argv[3]\<close> are loaded before the conversions of a call's arguments run (C leaves the
  order open). The node ids are the array after the loop; \<^verbatim>\<open>free\<close> releases it when the
  callback has returned.
\<close>

definition group_dispatch ::
  "(string \<Rightarrow> char \<Rightarrow> string list) \<Rightarrow> world \<Rightarrow> nat \<Rightarrow> readret \<Rightarrow> bool
     \<Rightarrow> (fault + int) \<times> world" where
  "group_dispatch mk_args w handle rd alloc_ok =
     VALIDATE_HANDLE w handle (\<lambda>h.
       let buf = read_buf rd;
           w1 = sys_read w (fd h) rd
       in if NUL \<notin> set buf then (Inl UnterminatedBuffer, w1)
          else
            let argv = mk_args (c_str buf) (CHR '' '');
                argc = length argv
            in if MAXARGS < argc then (Inl ArgvOverflow, w1)
               else
               (case arg argv 0 of
                  Inl f \<Rightarrow> (Inl f, w1)
                | Inr act \<Rightarrow>
                    if act = ''stop'' then
                      (case arg argv 1 of
                         Inl f \<Rightarrow> (Inl f, w1)
                       | Inr a1 \<Rightarrow>
                           (Inr 0, invoke w1 (stop (cbs h)) handle (private_data h)
                                     (StopArgs a1)))
                    else if act = ''start'' then
                      (let count = nodeid_count argc;
                           nodeids0 = replicate (nat count) 0
                       in if 4 < argc \<and> \<not> alloc_ok then (Inl NullPointer, w1)
                          else
                            (case nodeids_loop argv argc 4 nodeids0 of
                               Inl f \<Rightarrow> (Inl f, w1)
                             | Inr nodeids \<Rightarrow>
                            (case arg argv 1 of
                               Inl f \<Rightarrow> (Inl f, w1)
                             | Inr a1 \<Rightarrow>
                            (case arg argv 2 of
                               Inl f \<Rightarrow> (Inl f, w1)
                             | Inr a2 \<Rightarrow>
                            (case arg argv 3 of
                               Inl f \<Rightarrow> (Inl f, w1)
                             | Inr a3 \<Rightarrow>
                            (case atoi a2 of
                               None \<Rightarrow> (Inl IntOverflow, w1)
                             | Some n2 \<Rightarrow>
                            (case atoi a3 of
                               None \<Rightarrow> (Inl IntOverflow, w1)
                             | Some n3 \<Rightarrow>
                                 (Inr 0, invoke w1 (start (cbs h)) handle (private_data h)
                                           (StartArgs a1 n2 n3 count nodeids)))))))))
                    else if act = ''finish'' then
                      (case arg argv 1 of
                         Inl f \<Rightarrow> (Inl f, w1)
                       | Inr a1 \<Rightarrow>
                      (case arg argv 2 of
                         Inl f \<Rightarrow> (Inl f, w1)
                       | Inr a2 \<Rightarrow>
                      (case atoi a2 of
                         None \<Rightarrow> (Inl IntOverflow, w1)
                       | Some n2 \<Rightarrow>
                           (Inr 0, invoke w1 (finish (cbs h)) handle (private_data h)
                                     (FinishArgs a1 n2)))))
                    else if act = ''terminate'' then
                      (case arg argv 1 of
                         Inl f \<Rightarrow> (Inl f, w1)
                       | Inr a1 \<Rightarrow>
                           (Inr 0, invoke w1 (terminate (cbs h)) handle (private_data h)
                                     (TerminateArgs a1)))
                    else if act = ''set_id'' then
                      (case arg argv 1 of
                         Inl f \<Rightarrow> (Inl f, w1)
                       | Inr a1 \<Rightarrow>
                      (case arg argv 2 of
                         Inl f \<Rightarrow> (Inl f, w1)
                       | Inr a2 \<Rightarrow>
                      (case atoi a2 of
                         None \<Rightarrow> (Inl IntOverflow, w1)
                       | Some n2 \<Rightarrow>
                           (Inr 0, invoke w1 (set_id (cbs h)) handle (private_data h)
                                     (SetIdArgs a1 n2)))))
                    else (Inr 0, w1)))"

text \<open>The member of a callback structure that serves an event.\<close>

definition handler_of :: "group_callbacks \<Rightarrow> cb_args \<Rightarrow> nat" where
  "handler_of c args =
     (case args of
        StopArgs a \<Rightarrow> stop c
      | StartArgs a t n k ids \<Rightarrow> start c
      | FinishArgs a n \<Rightarrow> finish c
      | TerminateArgs a \<Rightarrow> terminate c
      | SetIdArgs a n \<Rightarrow> set_id c)"

definition new_events :: "world \<Rightarrow> world \<Rightarrow> event list" where
  \<comment> \<open>what a call that leads from \<open>w\<close> to \<open>w'\<close> has added to the trace\<close>
  "new_events w w' = drop (length (trace w)) (trace w')"

subsection \<open>Sequences of calls\<close>

text \<open>
  What the application does with the library after it has opened a session: a call of one
  of the seven functions, with the answers of the kernel and the allocator, or a store
  into its own callback structure. A fault ends the process, so the calls after it do
  not run.
\<close>

datatype lib_call =
    CallJoin nat string string sysret
  | CallLeave nat string string sysret
  | CallDone nat string int sysret
  | CallGetFd nat
  | CallDispatch nat readret bool
  | CallExit nat
  | CallInit nat string int nat nat sysret sysret sysret
  | AppStore nat group_callbacks

definition step ::
  "(string \<Rightarrow> char \<Rightarrow> string list) \<Rightarrow> world \<Rightarrow> lib_call \<Rightarrow> bool \<times> world" where
  \<comment> \<open>whether the call faults, and the world it leaves\<close>
  "step mk_args w c =
     (case c of
        CallJoin handle name info wr \<Rightarrow>
          (isl (fst (group_join w handle name info wr)),
           snd (group_join w handle name info wr))
      | CallLeave handle name info wr \<Rightarrow>
          (isl (fst (group_leave w handle name info wr)),
           snd (group_leave w handle name info wr))
      | CallDone handle name event_nr wr \<Rightarrow>
          (isl (fst (group_done w handle name event_nr wr)),
           snd (group_done w handle name event_nr wr))
      | CallGetFd handle \<Rightarrow>
          (isl (fst (group_get_fd w handle)), snd (group_get_fd w handle))
      | CallDispatch handle rd alloc_ok \<Rightarrow>
          (isl (fst (group_dispatch mk_args w handle rd alloc_ok)),
           snd (group_dispatch mk_args w handle rd alloc_ok))
      | CallExit handle \<Rightarrow>
          (isl (fst (group_exit w handle)), snd (group_exit w handle))
      | CallInit priv pname lvl cbs_ptr m sock conn wr \<Rightarrow>
          (isl (fst (group_init w priv pname lvl cbs_ptr m sock conn wr)),
           snd (group_init w priv pname lvl cbs_ptr m sock conn wr))
      | AppStore a c' \<Rightarrow> (False, w\<lparr>cbmem := (cbmem w)(a \<mapsto> c')\<rparr>))"

fun run :: "(string \<Rightarrow> char \<Rightarrow> string list) \<Rightarrow> world \<Rightarrow> lib_call list \<Rightarrow> world" where
  "run mk_args w [] = w"
| "run mk_args w (c # cs) =
     (if fst (step mk_args w c) then snd (step mk_args w c)
      else run mk_args (snd (step mk_args w c)) cs)"

definition keeps :: "nat \<Rightarrow> lib_call \<Rightarrow> bool" where
  \<comment> \<open>the call leaves the session \<open>handle\<close> open: it is not its \<^verbatim>\<open>group_exit\<close>; and
      \<^verbatim>\<open>malloc\<close> does not return the block of a live handle\<close>
  "keeps handle c =
     (case c of
        CallExit handle' \<Rightarrow> handle' \<noteq> handle
      | CallInit priv pname lvl cbs_ptr m sock conn wr \<Rightarrow> m \<noteq> handle
      | _ \<Rightarrow> True)"

subsection \<open>A concrete session\<close>

text \<open>
  A world with one live session at address 16, on descriptor 3, opened by the program
  \<^verbatim>\<open>fenced\<close> with the callbacks of \<open>ex_cbs\<close>, which the application keeps at address 50.
\<close>

definition ex_cbs :: group_callbacks where
  "ex_cbs = \<lparr>stop = 101, start = 102, finish = 103, terminate = 104, set_id = 105\<rparr>"

definition ex_handle :: group_handle where
  "ex_handle =
     \<lparr>magic = LIBGROUP_MAGIC, fd = 3, level = 0, private_data = 7, cbs = ex_cbs,
      prog_name = strncpy PROG_NAME_LEN ''fenced''\<rparr>"

definition ex_world :: "bool \<Rightarrow> world" where
  "ex_world rw =
     \<lparr>heap = [16 \<mapsto> ex_handle], freed = Map.empty, cbmem = [50 \<mapsto> ex_cbs], fds = {3},
      errno = 0,
      trace = [], rodata_writable = rw\<rparr>"

text \<open>
  The application replaces its callback structure at address 50 by \<open>ex_cbs2\<close> after a
  session has been opened in \<open>ex_world\<close> with the structure it held before.
\<close>

definition ex_cbs2 :: group_callbacks where
  "ex_cbs2 = \<lparr>stop = 201, start = 202, finish = 203, terminate = 204, set_id = 205\<rparr>"

definition ex_opened :: world where
  "ex_opened =
     snd (group_init (ex_world False) 9 ''gfs'' 1 50 32 (Success 4) (Success 0) (Success 11))"

definition ex_changed :: world where
  "ex_changed = ex_opened\<lparr>cbmem := (cbmem ex_opened)(50 \<mapsto> ex_cbs2)\<rparr>"

text \<open>
  After the session at address 32 has been opened, the application dispatches a
  \<^verbatim>\<open>finish\<close> line, replaces its callback structure, asks for the descriptor and
  dispatches a \<^verbatim>\<open>set_id\<close> line.
\<close>

definition ex_calls :: "lib_call list" where
  "ex_calls =
     [CallDispatch 32 (ReadOk ''finish g1 3'') True, AppStore 50 ex_cbs2, CallGetFd 32,
      CallDispatch 32 (ReadOk ''set_id g1 7'') True]"

text \<open>
  The session at address 16 is closed; then a new session is opened, for which \<^verbatim>\<open>malloc\<close>
  returns the block just freed and \<^verbatim>\<open>socket\<close> the descriptor just closed.
\<close>

definition ex_closed :: world where
  "ex_closed = snd (group_exit (ex_world False) 16)"

definition ex_reopened :: world where
  "ex_reopened =
     snd (group_init ex_closed 8 ''gfs'' 1 50 16 (Success 3) (Success 0) (Success 11))"

text \<open>A program name of 43 bytes.\<close>

definition long_name :: string where
  "long_name = ''a_program_name_longer_than_thirty_two_bytes''"

section \<open>Properties\<close>

subsection \<open>Buffers and tokens\<close>

lemma c_str_padded: "NUL \<notin> set s \<Longrightarrow> c_str (s @ replicate n NUL) = s"
  by (induction s) (auto simp: c_str_def takeWhile_eq_Nil_iff)

lemma c_str_memset_buf: "c_str memset_buf = []"
  by (simp add: c_str_def memset_buf_def MAXLINE_def)

lemma NUL_in_memset_buf: "NUL \<in> set memset_buf"
  by (simp add: memset_buf_def MAXLINE_def)

lemma NUL_notin_c_str: "NUL \<notin> set (c_str s)"
  unfolding c_str_def by (induction s) auto

lemma read_buf_short:
  "length bytes < MAXLINE \<Longrightarrow>
     read_buf (ReadOk bytes) = bytes @ replicate (MAXLINE - length bytes) NUL"
  by (simp add: read_buf_def)

lemma NUL_in_read_buf: "length bytes < MAXLINE \<Longrightarrow> NUL \<in> set (read_buf (ReadOk bytes))"
  by (simp add: read_buf_short)

lemma c_str_read_buf:
  "NUL \<notin> set bytes \<Longrightarrow> length bytes < MAXLINE \<Longrightarrow> c_str (read_buf (ReadOk bytes)) = bytes"
  by (simp add: read_buf_short c_str_padded)

lemma c_str_read_nothing: "c_str (read_buf (ReadOk [])) = []"
  by (simp add: read_buf_def c_str_def MAXLINE_def)

lemma c_str_read_failed: "c_str (read_buf (ReadErr e)) = []"
  by (simp add: read_buf_def c_str_memset_buf)

lemma NUL_in_read_nothing: "NUL \<in> set (read_buf (ReadOk []))"
  by (simp add: read_buf_def MAXLINE_def)

lemma NUL_in_read_failed: "NUL \<in> set (read_buf (ReadErr e))"
  by (simp add: read_buf_def NUL_in_memset_buf)

lemma split_sep_nonempty: "split_sep sep s \<noteq> []"
  by (induction s) (auto split: list.splits)

lemma make_args_nonempty: "make_args line sep \<noteq> []"
  by (simp add: make_args_def MAXARGS_def split_sep_nonempty)

lemma make_args_bounded: "length (make_args line sep) \<le> MAXARGS"
  by (simp add: make_args_def)

lemma make_args_empty: "make_args [] sep = [[]]"
  by (simp add: make_args_def MAXARGS_def)

lemma arg_0: "argv \<noteq> [] \<Longrightarrow> arg argv 0 = Inr (hd argv)"
  by (simp add: arg_def hd_conv_nth)

lemma nodeids_loop_done: "\<not> i < argc \<Longrightarrow> nodeids_loop argv argc i ns = Inr ns"
  by (simp add: nodeids_loop.simps)

lemma digit_not_NUL: "k < 10 \<Longrightarrow> ''0123456789'' ! k \<noteq> NUL"
  by (simp add: NUL_def less_Suc_eq numeral_eq_Suc) auto

lemma NUL_notin_dec_nat: "NUL \<notin> set (dec_nat n)"
proof (induction n rule: dec_nat.induct)
  case (1 n)
  show ?case
  proof (cases "n < 10")
    case True
    then show ?thesis
      using digit_not_NUL [of n] by (simp add: dec_nat.simps [of n])
  next
    case False
    then show ?thesis
      using 1 digit_not_NUL [of "n mod 10"] by (simp add: dec_nat.simps [of n])
  qed
qed

lemma NUL_notin_format_d: "NUL \<notin> set (format_d i)"
proof -
  have "NUL \<noteq> CHR ''-''" by (simp add: NUL_def)
  then show ?thesis by (simp add: format_d_def NUL_notin_dec_nat)
qed

lemma NUL_notin_setup: "NUL \<notin> set (''setup '' @ c_str pname @ '' '' @ format_d lvl)"
proof -
  have "NUL \<notin> set ''setup ''" "NUL \<notin> set '' ''" by (simp_all add: NUL_def)
  then show ?thesis by (simp add: NUL_notin_c_str NUL_notin_format_d)
qed

lemma sprintf_buf_fits:
  "length s < MAXLINE \<Longrightarrow> sprintf_buf s = Inr (s @ replicate (MAXLINE - length s) NUL)"
  by (simp add: sprintf_buf_def)

subsection \<open>System calls\<close>

lemma sys_read_fields:
  "heap (sys_read w d rd) = heap w" "cbmem (sys_read w d rd) = cbmem w"
  "fds (sys_read w d rd) = fds w"
  "trace (sys_read w d rd) = trace w @ [SysRead d MAXLINE]"
  by (cases rd; simp add: sys_read_def log_event_def)+

lemma sys_socket_fields:
  "heap (sys_socket w r) = heap w" "cbmem (sys_socket w r) = cbmem w"
  "fds (sys_socket w r) = (case r of Success n \<Rightarrow> insert n (fds w) | Failure e \<Rightarrow> fds w)"
  "trace (sys_socket w r) = trace w @ [SysSocket]"
  by (cases r; simp add: sys_socket_def set_errno_def log_event_def)+

lemma sys_connect_fields:
  "heap (sys_connect w d r) = heap w" "cbmem (sys_connect w d r) = cbmem w"
  "fds (sys_connect w d r) = fds w"
  "trace (sys_connect w d r) = trace w @ [SysConnect d]"
  by (cases r; simp add: sys_connect_def set_errno_def log_event_def)+

lemma sys_write_fields:
  "heap (sys_write w d bytes r) = heap w" "cbmem (sys_write w d bytes r) = cbmem w"
  "fds (sys_write w d bytes r) = fds w"
  "trace (sys_write w d bytes r) = trace w @ [SysWrite d bytes]"
  by (cases r; simp add: sys_write_def set_errno_def log_event_def)+

lemma invoke_fields:
  "heap (invoke w f x p args) = heap w" "cbmem (invoke w f x p args) = cbmem w"
  "fds (invoke w f x p args) = fds w"
  "trace (invoke w f x p args) = trace w @ [Callback f x p args]"
  by (simp_all add: invoke_def log_event_def)

subsection \<open>Handle validation\<close>

lemma validate_live:
  "handle \<noteq> NULL \<Longrightarrow> heap w handle = Some h \<Longrightarrow> magic h = LIBGROUP_MAGIC \<Longrightarrow>
     VALIDATE_HANDLE w handle body = body h"
  by (simp add: VALIDATE_HANDLE_def storage_def)

lemma validate_rejects:
  "handle = NULL \<or> (\<exists>h. storage w handle = Some h \<and> magic h \<noteq> LIBGROUP_MAGIC) \<Longrightarrow>
     VALIDATE_HANDLE w handle body = (Inr (- 1), w\<lparr>errno := EINVAL\<rparr>)"
  by (auto simp: VALIDATE_HANDLE_def)

lemma heap_validate:
  assumes "\<And>h. heap (snd (body h)) = heap w"
  shows "heap (snd (VALIDATE_HANDLE w handle body)) = heap w"
  using assms by (simp add: VALIDATE_HANDLE_def split: option.splits)

lemma ex_world_live:
  "16 \<noteq> NULL" "heap (ex_world rw) 16 = Some ex_handle" "magic ex_handle = LIBGROUP_MAGIC"
  by (simp_all add: NULL_def ex_world_def ex_handle_def)

lemma ex_handle_fields:
  "fd ex_handle = 3" "private_data ex_handle = 7" "cbs ex_handle = ex_cbs"
  by (simp_all add: ex_handle_def)

lemma ex_world_fields:
  "trace (ex_world rw) = []" "fds (ex_world rw) = {3}" "errno (ex_world rw) = 0"
  "rodata_writable (ex_world rw) = rw"
  by (simp_all add: ex_world_def)

subsection \<open>The command encoder\<close>

lemma sprintf_literal_buf: "sprintf_literal w buf literal format args = Inr b \<Longrightarrow> b = buf"
  by (auto simp: sprintf_literal_def split: if_splits sum.splits)

lemma group_join_live:
  assumes "handle \<noteq> NULL" and "heap w handle = Some h" and "magic h = LIBGROUP_MAGIC"
  shows "group_join w handle name info wr =
           (case sprintf_literal w memset_buf ''join %s'' name [] of
              Inl f \<Rightarrow> (Inl f, w)
            | Inr buf \<Rightarrow> (Inr (ret_val wr), sys_write w (fd h) [] wr))"
  unfolding group_join_def validate_live [OF assms]
  by (auto simp: c_str_memset_buf split: sum.splits dest: sprintf_literal_buf)

lemma group_leave_live:
  assumes "handle \<noteq> NULL" and "heap w handle = Some h" and "magic h = LIBGROUP_MAGIC"
  shows "group_leave w handle name info wr =
           (case sprintf_literal w memset_buf ''leave %s'' name [] of
              Inl f \<Rightarrow> (Inl f, w)
            | Inr buf \<Rightarrow> (Inr (ret_val wr), sys_write w (fd h) [] wr))"
  unfolding group_leave_def validate_live [OF assms]
  by (auto simp: c_str_memset_buf split: sum.splits dest: sprintf_literal_buf)

lemma group_done_live:
  assumes "handle \<noteq> NULL" and "heap w handle = Some h" and "magic h = LIBGROUP_MAGIC"
  shows "group_done w handle name event_nr wr =
           (case sprintf_literal w memset_buf ''done %s %d'' name [event_nr] of
              Inl f \<Rightarrow> (Inl f, w)
            | Inr buf \<Rightarrow> (Inr (ret_val wr), sys_write w (fd h) [] wr))"
  unfolding group_done_def validate_live [OF assms]
  by (auto simp: c_str_memset_buf split: sum.splits dest: sprintf_literal_buf)

lemma sprintf_literal_g1:
  "sprintf_literal (ex_world rw) memset_buf ''join %s'' ''g1'' [] =
     (if rw then Inr memset_buf else Inl LiteralWrite)"
  "sprintf_literal (ex_world rw) memset_buf ''done %s %d'' ''g1'' [7] =
     (if rw then Inr memset_buf else Inl LiteralWrite)"
  by (simp_all add: sprintf_literal_def ex_world_fields c_str_def NUL_def)

text \<open>
  C1. The code at the input of the claim: on the live session of \<open>ex_world\<close>,
  \<open>group_join\<close> with the name \<^verbatim>\<open>g1\<close> and \<open>group_done\<close> with \<^verbatim>\<open>g1\<close> and 7 format nothing
  into \<^verbatim>\<open>buf\<close>. Where string literals are read-only they fault before any \<^verbatim>\<open>write\<close>;
  where they are writable the \<^verbatim>\<open>write\<close> they issue carries zero bytes. Neither
  \<^verbatim>\<open>join g1\<close> nor \<^verbatim>\<open>done g1 7\<close> is written.
\<close>

theorem encoder_writes_no_command:
  "group_join (ex_world False) 16 ''g1'' [] (Success 0) = (Inl LiteralWrite, ex_world False) \<and>
   group_join (ex_world True) 16 ''g1'' [] (Success 0) =
     (Inr 0, (ex_world True)\<lparr>trace := [SysWrite 3 []]\<rparr>) \<and>
   group_done (ex_world False) 16 ''g1'' 7 (Success 0) = (Inl LiteralWrite, ex_world False) \<and>
   group_done (ex_world True) 16 ''g1'' 7 (Success 0) =
     (Inr 0, (ex_world True)\<lparr>trace := [SysWrite 3 []]\<rparr>)"
  by (simp add: group_join_live [OF ex_world_live] group_done_live [OF ex_world_live]
      sprintf_literal_g1 ex_world_fields ex_handle_fields sys_write_def set_errno_def
      log_event_def ret_val_def)

subsection \<open>The dispatcher\<close>

lemma new_events_sys_read: "new_events w (sys_read w d rd) = [SysRead d MAXLINE]"
  by (simp add: new_events_def sys_read_fields)

lemma dispatch_no_action:
  assumes "handle \<noteq> NULL" and "heap w handle = Some h" and "magic h = LIBGROUP_MAGIC"
    and "NUL \<in> set (read_buf rd)"
    and "argv = mk_args (c_str (read_buf rd)) (CHR '' '')"
    and "argv \<noteq> []" and "length argv \<le> MAXARGS"
    and "hd argv \<notin> set [''stop'', ''start'', ''finish'', ''terminate'', ''set_id'']"
  shows "group_dispatch mk_args w handle rd alloc_ok = (Inr 0, sys_read w (fd h) rd)"
proof -
  from assms(8) have act: "hd argv \<noteq> ''stop''" "hd argv \<noteq> ''start''"
    "hd argv \<noteq> ''finish''" "hd argv \<noteq> ''terminate''" "hd argv \<noteq> ''set_id''"
    by simp_all
  have bound: "\<not> MAXARGS < length argv"
    using assms(7) by simp
  show ?thesis
    unfolding group_dispatch_def validate_live [OF assms(1-3)] Let_def assms(5) [symmetric]
    using assms(4) act bound by (simp add: arg_0 [OF assms(6)])
qed

lemma dispatch_empty_line:
  assumes "handle \<noteq> NULL" and "heap w handle = Some h" and "magic h = LIBGROUP_MAGIC"
    and "rd = ReadOk [] \<or> rd = ReadErr e"
    and "mk_args [] (CHR '' '') = [[]]"
  shows "group_dispatch mk_args w handle rd alloc_ok = (Inr 0, sys_read w (fd h) rd)"
proof -
  from assms(4) have line: "c_str (read_buf rd) = []"
    by (auto simp: c_str_read_nothing c_str_read_failed)
  from assms(4) have terminated: "NUL \<in> set (read_buf rd)"
    by (auto simp: NUL_in_read_nothing NUL_in_read_failed)
  have argv: "[[]] = mk_args (c_str (read_buf rd)) (CHR '' '')"
    by (simp add: line assms(5))
  show ?thesis
    using assms(1-3) terminated argv
    by (rule dispatch_no_action) (simp_all add: MAXARGS_def)
qed

text \<open>
  C2. The code at the inputs of the claim: on the live session of \<open>ex_world\<close>, when
  \<^verbatim>\<open>read\<close> returns zero bytes and when it fails with errno 5, \<open>group_dispatch\<close> returns 0,
  the value it returns for an event it has handled.
\<close>

theorem dispatch_read_failure_returns_success:
  "group_dispatch make_args (ex_world False) 16 (ReadOk []) True =
     (Inr 0, (ex_world False)\<lparr>trace := [SysRead 3 256]\<rparr>) \<and>
   group_dispatch make_args (ex_world False) 16 (ReadErr 5) True =
     (Inr 0, (ex_world False)\<lparr>errno := 5, trace := [SysRead 3 256]\<rparr>)"
proof -
  have "group_dispatch make_args (ex_world False) 16 (ReadOk []) True =
          (Inr 0, sys_read (ex_world False) (fd ex_handle) (ReadOk []))"
    using ex_world_live by (rule dispatch_empty_line) (simp_all add: make_args_empty)
  moreover have "group_dispatch make_args (ex_world False) 16 (ReadErr 5) True =
          (Inr 0, sys_read (ex_world False) (fd ex_handle) (ReadErr 5))"
    using ex_world_live by (rule dispatch_empty_line) (simp_all add: make_args_empty)
  ultimately show ?thesis
    by (simp add: sys_read_def log_event_def ex_world_fields ex_handle_fields MAXLINE_def)
qed

lemma make_args_start_line:
  "make_args ''start g1 1 5 10 11 12'' (CHR '' '') =
     [''start'', ''g1'', ''1'', ''5'', ''10'', ''11'', ''12'']"
  by (simp add: make_args_def MAXARGS_def)

lemma atoi_examples:
  "atoi ''1'' = Some 1" "atoi ''5'' = Some 5" "atoi ''10'' = Some 10"
  "atoi ''11'' = Some 11" "atoi ''12'' = Some 12"
  by (simp_all add: atoi_def isspace_def isdigit_def INT_MIN_def INT_MAX_def)

lemma nodeids_start_line:
  "nodeids_loop [''start'', ''g1'', ''1'', ''5'', ''10'', ''11'', ''12''] 7 4 (replicate 3 0) =
     Inr [10, 11, 12]"
  by (simp add: nodeids_loop.simps arg_def atoi_examples numeral_3_eq_3)

text \<open>
  C3. On a live session, when \<^verbatim>\<open>read\<close> delivers the line \<^verbatim>\<open>start g1 1 5 10 11 12\<close>, the
  tokenizer splits it at the spaces into its seven tokens and the node id array is
  allocated, \<open>group_dispatch\<close> returns 0 and makes exactly one call. The call is to the
  \<open>start\<close> member of the session's callbacks, with the handle, the private pointer, the
  name \<^verbatim>\<open>g1\<close>, event type 1, event number 5, the count 3 and the node ids 10, 11, 12 in
  this order.
\<close>

theorem dispatch_start_line:
  assumes "handle \<noteq> NULL" and "heap w handle = Some h" and "magic h = LIBGROUP_MAGIC"
    and "alloc_ok"
    and "mk_args ''start g1 1 5 10 11 12'' (CHR '' '') =
           [''start'', ''g1'', ''1'', ''5'', ''10'', ''11'', ''12'']"
  shows "group_dispatch mk_args w handle (ReadOk ''start g1 1 5 10 11 12'') alloc_ok =
           (Inr 0, w\<lparr>trace := trace w @
              [SysRead (fd h) MAXLINE,
               Callback (start (cbs h)) handle (private_data h)
                 (StartArgs ''g1'' 1 5 3 [10, 11, 12])]\<rparr>)"
proof -
  let ?line = "''start g1 1 5 10 11 12''"
  define argv where "argv = mk_args (c_str (read_buf (ReadOk ?line))) (CHR '' '')"
  have len: "length ?line < MAXLINE" by (simp add: MAXLINE_def)
  have nonul: "NUL \<notin> set ?line" by (simp add: NUL_def)
  have buf: "c_str (read_buf (ReadOk ?line)) = ?line"
    using nonul len by (rule c_str_read_buf)
  have terminated: "NUL \<in> set (read_buf (ReadOk ?line))"
    using len by (rule NUL_in_read_buf)
  have argv: "argv = [''start'', ''g1'', ''1'', ''5'', ''10'', ''11'', ''12'']"
    unfolding argv_def buf by (rule assms(5))
  have argc: "length argv = 7" by (simp add: argv)
  have bound: "\<not> MAXARGS < 7" by (simp add: MAXARGS_def)
  have args: "arg argv 0 = Inr ''start''" "arg argv (Suc 0) = Inr ''g1''"
    "arg argv 2 = Inr ''1''" "arg argv 3 = Inr ''5''"
    by (simp_all add: argv arg_def)
  have count: "nodeid_count 7 = 3" by (simp add: nodeid_count_def)
  have loop: "nodeids_loop argv 7 4 (replicate 3 0) = Inr [10, 11, 12]"
    unfolding argv by (rule nodeids_start_line)
  have "group_dispatch mk_args w handle (ReadOk ?line) alloc_ok =
          (Inr 0, invoke (sys_read w (fd h) (ReadOk ?line)) (start (cbs h)) handle
             (private_data h) (StartArgs ''g1'' 1 5 3 [10, 11, 12]))"
    unfolding group_dispatch_def validate_live [OF assms(1-3)] Let_def argv_def [symmetric]
    using assms(4) terminated bound
    by (simp add: args argc count loop atoi_examples)
  then show ?thesis
    by (simp add: invoke_def sys_read_def log_event_def)
qed

theorem dispatch_start_line_witness:
  "heap (ex_world False) 16 = Some ex_handle \<and> magic ex_handle = LIBGROUP_MAGIC \<and>
   make_args ''start g1 1 5 10 11 12'' (CHR '' '') =
     [''start'', ''g1'', ''1'', ''5'', ''10'', ''11'', ''12''] \<and>
   group_dispatch make_args (ex_world False) 16 (ReadOk ''start g1 1 5 10 11 12'') True =
     (Inr 0, (ex_world False)\<lparr>trace :=
        [SysRead 3 256, Callback 102 16 7 (StartArgs ''g1'' 1 5 3 [10, 11, 12])]\<rparr>)"
proof -
  have "group_dispatch make_args (ex_world False) 16 (ReadOk ''start g1 1 5 10 11 12'') True =
          (Inr 0, (ex_world False)\<lparr>trace := trace (ex_world False) @
             [SysRead (fd ex_handle) MAXLINE,
              Callback (start (cbs ex_handle)) 16 (private_data ex_handle)
                (StartArgs ''g1'' 1 5 3 [10, 11, 12])]\<rparr>)"
    using ex_world_live
    by (rule dispatch_start_line) (simp_all add: make_args_start_line)
  then show ?thesis
    using ex_world_live
    by (simp add: make_args_start_line ex_world_fields ex_handle_fields ex_cbs_def
        MAXLINE_def)
qed

text \<open>
  C4. On a live session, for every line that \<^verbatim>\<open>read\<close> leaves NUL-terminated in the buffer
  and whose first token is none of \<^verbatim>\<open>stop\<close>, \<^verbatim>\<open>start\<close>, \<^verbatim>\<open>finish\<close>, \<^verbatim>\<open>terminate\<close>,
  \<^verbatim>\<open>set_id\<close>, \<open>group_dispatch\<close> returns 0 and the only event it adds to the trace is the
  \<^verbatim>\<open>read\<close>: no callback is invoked. This holds whatever the tokenizer, as long as the
  tokens it gives fit \<^verbatim>\<open>argv\<close>.
\<close>

theorem dispatch_unrecognized_action:
  assumes "handle \<noteq> NULL" and "heap w handle = Some h" and "magic h = LIBGROUP_MAGIC"
    and "NUL \<in> set (read_buf rd)"
    and "argv = mk_args (c_str (read_buf rd)) (CHR '' '')"
    and "argv \<noteq> []" and "length argv \<le> MAXARGS"
    and "hd argv \<notin> set [''stop'', ''start'', ''finish'', ''terminate'', ''set_id'']"
  shows "group_dispatch mk_args w handle rd alloc_ok = (Inr 0, sys_read w (fd h) rd) \<and>
         new_events w (sys_read w (fd h) rd) = [SysRead (fd h) MAXLINE]"
  using dispatch_no_action [where mk_args = mk_args, OF assms]
  by (simp add: new_events_sys_read)

lemma make_args_frobnicate:
  "make_args ''frobnicate x y'' (CHR '' '') = [''frobnicate'', ''x'', ''y'']"
  by (simp add: make_args_def MAXARGS_def)

theorem dispatch_unrecognized_action_witness:
  "heap (ex_world False) 16 = Some ex_handle \<and> magic ex_handle = LIBGROUP_MAGIC \<and>
   make_args (c_str (read_buf (ReadOk ''frobnicate x y''))) (CHR '' '') =
     [''frobnicate'', ''x'', ''y''] \<and>
   group_dispatch make_args (ex_world False) 16 (ReadOk ''frobnicate x y'') True =
     (Inr 0, (ex_world False)\<lparr>trace := [SysRead 3 256]\<rparr>)"
proof -
  let ?line = "''frobnicate x y''"
  have len: "length ?line < MAXLINE" by (simp add: MAXLINE_def)
  have nonul: "NUL \<notin> set ?line" by (simp add: NUL_def)
  have terminated: "NUL \<in> set (read_buf (ReadOk ?line))"
    using len by (rule NUL_in_read_buf)
  have argv: "[''frobnicate'', ''x'', ''y''] =
      make_args (c_str (read_buf (ReadOk ?line))) (CHR '' '')"
    by (simp add: c_str_read_buf [OF nonul len] make_args_frobnicate)
  have "group_dispatch make_args (ex_world False) 16 (ReadOk ?line) True =
          (Inr 0, sys_read (ex_world False) (fd ex_handle) (ReadOk ?line)) \<and>
        new_events (ex_world False) (sys_read (ex_world False) (fd ex_handle) (ReadOk ?line)) =
          [SysRead (fd ex_handle) MAXLINE]"
    using ex_world_live terminated argv
    by (rule dispatch_unrecognized_action) (simp_all add: MAXARGS_def)
  then show ?thesis
    using ex_world_live argv [symmetric]
    by (simp add: sys_read_def log_event_def ex_world_fields ex_handle_fields MAXLINE_def)
qed

text \<open>
  C9. On a live session, when \<^verbatim>\<open>read\<close> fails or returns zero bytes, the buffer stays
  zero-filled (its line is empty) and is tokenized; the empty line having one empty token,
  \<open>group_dispatch\<close> returns 0, the only event it adds to the trace is the \<^verbatim>\<open>read\<close> (no
  callback is invoked), and the heap, so the session, and the open descriptors are
  unchanged.
\<close>

theorem dispatch_read_nothing:
  assumes "handle \<noteq> NULL" and "heap w handle = Some h" and "magic h = LIBGROUP_MAGIC"
    and "rd = ReadOk [] \<or> rd = ReadErr e"
    and "mk_args [] (CHR '' '') = [[]]"
  shows "c_str (read_buf rd) = [] \<and>
         group_dispatch mk_args w handle rd alloc_ok = (Inr 0, sys_read w (fd h) rd) \<and>
         new_events w (sys_read w (fd h) rd) = [SysRead (fd h) MAXLINE] \<and>
         heap (sys_read w (fd h) rd) = heap w \<and>
         fds (sys_read w (fd h) rd) = fds w"
proof -
  from assms(4) have "c_str (read_buf rd) = []"
    by (auto simp: c_str_read_nothing c_str_read_failed)
  then show ?thesis
    using dispatch_empty_line [where mk_args = mk_args, OF assms]
    by (simp add: new_events_sys_read sys_read_fields)
qed

theorem dispatch_read_nothing_witness:
  "heap (ex_world False) 16 = Some ex_handle \<and> magic ex_handle = LIBGROUP_MAGIC \<and>
   make_args [] (CHR '' '') = [[]] \<and>
   group_dispatch make_args (ex_world False) 16 (ReadErr 104) True =
     (Inr 0, (ex_world False)\<lparr>errno := 104, trace := [SysRead 3 256]\<rparr>) \<and>
   heap (sys_read (ex_world False) 3 (ReadErr 104)) = heap (ex_world False)"
proof -
  have "c_str (read_buf (ReadErr 104)) = [] \<and>
        group_dispatch make_args (ex_world False) 16 (ReadErr 104) True =
          (Inr 0, sys_read (ex_world False) (fd ex_handle) (ReadErr 104)) \<and>
        new_events (ex_world False) (sys_read (ex_world False) (fd ex_handle) (ReadErr 104)) =
          [SysRead (fd ex_handle) MAXLINE] \<and>
        heap (sys_read (ex_world False) (fd ex_handle) (ReadErr 104)) = heap (ex_world False) \<and>
        fds (sys_read (ex_world False) (fd ex_handle) (ReadErr 104)) = fds (ex_world False)"
    using ex_world_live
    by (rule dispatch_read_nothing) (simp_all add: make_args_empty)
  then show ?thesis
    using ex_world_live
    by (simp add: make_args_empty sys_read_def log_event_def ex_world_fields ex_handle_fields
        MAXLINE_def)
qed

text \<open>
  C10. On a live session, for every NUL-terminated line whose first token is \<^verbatim>\<open>start\<close>
  and which has fewer than four tokens, \<open>group_dispatch\<close> uses an entry of \<^verbatim>\<open>argv\<close> that
  was never set: the entry at the position \<open>argc\<close>, which is 1, 2 or 3. The node id count
  \<open>argc - 4\<close> it has computed for the allocation is negative. No argument count is checked.
\<close>

theorem dispatch_start_too_few_args:
  assumes "handle \<noteq> NULL" and "heap w handle = Some h" and "magic h = LIBGROUP_MAGIC"
    and "NUL \<in> set (read_buf rd)"
    and "argv = mk_args (c_str (read_buf rd)) (CHR '' '')"
    and "argv \<noteq> []"
    and "hd argv = ''start''"
    and "length argv < 4"
  shows "group_dispatch mk_args w handle rd alloc_ok =
           (Inl (UninitArg (length argv)), sys_read w (fd h) rd) \<and>
         1 \<le> length argv \<and> length argv \<le> 3 \<and>
         nodeid_count (length argv) < 0"
proof -
  have lo: "1 \<le> length argv"
    using assms(6) by (cases argv) simp_all
  have act: "arg argv 0 = Inr ''start''"
    using assms(6,7) by (simp add: arg_0)
  have loop: "nodeids_loop argv (length argv) 4 ns = Inr ns" for ns
    using assms(8) by (simp add: nodeids_loop_done)
  have no_loop: "\<not> 4 < length argv"
    using assms(8) by simp
  have bound: "\<not> MAXARGS < length argv"
    using assms(8) by (simp add: MAXARGS_def)
  have arg3: "arg argv 3 = Inl (UninitArg 3)"
    using assms(8) by (simp add: arg_def)
  have step: "group_dispatch mk_args w handle rd alloc_ok =
      (case arg argv 1 of
         Inl f \<Rightarrow> (Inl f, sys_read w (fd h) rd)
       | Inr a1 \<Rightarrow>
           (case arg argv 2 of
              Inl f \<Rightarrow> (Inl f, sys_read w (fd h) rd)
            | Inr a2 \<Rightarrow> (Inl (UninitArg 3), sys_read w (fd h) rd)))"
    unfolding group_dispatch_def validate_live [OF assms(1-3)] Let_def assms(5) [symmetric]
    using assms(4) bound by (simp add: act loop no_loop arg3 cong: sum.case_cong)
  from lo assms(8) consider "length argv = 1" | "length argv = 2" | "length argv = 3"
    by linarith
  then have "group_dispatch mk_args w handle rd alloc_ok =
               (Inl (UninitArg (length argv)), sys_read w (fd h) rd)"
    unfolding step by cases (simp_all add: arg_def)
  with lo assms(8) show ?thesis
    by (simp add: nodeid_count_def)
qed

lemma make_args_start_g1: "make_args ''start g1'' (CHR '' '') = [''start'', ''g1'']"
  by (simp add: make_args_def MAXARGS_def)

theorem dispatch_start_too_few_args_witness:
  "heap (ex_world False) 16 = Some ex_handle \<and> magic ex_handle = LIBGROUP_MAGIC \<and>
   make_args (c_str (read_buf (ReadOk ''start g1''))) (CHR '' '') = [''start'', ''g1''] \<and>
   group_dispatch make_args (ex_world False) 16 (ReadOk ''start g1'') True =
     (Inl (UninitArg 2), (ex_world False)\<lparr>trace := [SysRead 3 256]\<rparr>) \<and>
   nodeid_count 2 = - 2"
proof -
  let ?line = "''start g1''"
  have len: "length ?line < MAXLINE" by (simp add: MAXLINE_def)
  have nonul: "NUL \<notin> set ?line" by (simp add: NUL_def)
  have terminated: "NUL \<in> set (read_buf (ReadOk ?line))"
    using len by (rule NUL_in_read_buf)
  have argv: "[''start'', ''g1''] = make_args (c_str (read_buf (ReadOk ?line))) (CHR '' '')"
    by (simp add: c_str_read_buf [OF nonul len] make_args_start_g1)
  have "group_dispatch make_args (ex_world False) 16 (ReadOk ?line) True =
          (Inl (UninitArg (length [''start'', ''g1''])),
           sys_read (ex_world False) (fd ex_handle) (ReadOk ?line)) \<and>
        1 \<le> length [''start'', ''g1''] \<and> length [''start'', ''g1''] \<le> 3 \<and>
        nodeid_count (length [''start'', ''g1'']) < 0"
    using ex_world_live terminated argv
    by (rule dispatch_start_too_few_args) simp_all
  then show ?thesis
    using ex_world_live argv [symmetric]
    by (simp add: sys_read_def log_event_def ex_world_fields ex_handle_fields MAXLINE_def
        nodeid_count_def)
qed

subsection \<open>Invalid handles\<close>

lemma invalid_handle_rejected:
  assumes "handle = NULL \<or> (\<exists>h. storage w handle = Some h \<and> magic h \<noteq> LIBGROUP_MAGIC)"
  shows "group_join w handle name info wr = (Inr (- 1), w\<lparr>errno := EINVAL\<rparr>) \<and>
         group_leave w handle name info wr = (Inr (- 1), w\<lparr>errno := EINVAL\<rparr>) \<and>
         group_done w handle name event_nr wr = (Inr (- 1), w\<lparr>errno := EINVAL\<rparr>) \<and>
         group_get_fd w handle = (Inr (- 1), w\<lparr>errno := EINVAL\<rparr>) \<and>
         group_dispatch mk_args w handle rd alloc_ok = (Inr (- 1), w\<lparr>errno := EINVAL\<rparr>) \<and>
         group_exit w handle = (Inr (- 1), w\<lparr>errno := EINVAL\<rparr>)"
  unfolding group_join_def group_leave_def group_done_def group_get_fd_def
    group_dispatch_def group_exit_def
  by (simp add: validate_rejects [OF assms])

lemma group_exit_live:
  assumes "handle \<noteq> NULL" and "heap w handle = Some h" and "magic h = LIBGROUP_MAGIC"
  shows "fst (group_exit w handle) = Inr 0 \<and>
         heap (snd (group_exit w handle)) handle = None \<and>
         storage (snd (group_exit w handle)) handle = Some (h\<lparr>magic := 0\<rparr>)"
  unfolding group_exit_def validate_live [OF assms]
  using assms(2)
  by (simp add: Let_def store_handle_def sys_close_def log_event_def sys_free_def storage_def)

text \<open>
  C5. The code at the input where it breaks the claim. \<^verbatim>\<open>group_exit\<close> clears the tag and
  then frees the handle, so the validation of a later call reads \<^verbatim>\<open>h->magic\<close> from a
  block that is no longer the handle's. In \<open>ex_closed\<close> the session at address 16 has been
  closed and its block not handed out again: the cleared tag is still there, and
  \<open>group_get_fd\<close> returns \<open>-1\<close> with no system call. In \<open>ex_reopened\<close> \<^verbatim>\<open>malloc\<close> has given
  the block to a new session: on the closed handle \<open>group_get_fd\<close> returns the new
  session's descriptor, \<open>group_dispatch\<close> reads from it and invokes a callback, and
  \<open>group_exit\<close> closes the new session.
\<close>

theorem closed_handle_accepted_after_reuse:
  "fst (group_exit (ex_world False) 16) = Inr 0 \<and>
   fst (group_get_fd ex_closed 16) = Inr (- 1) \<and>
   new_events ex_closed (snd (group_get_fd ex_closed 16)) = [] \<and>
   fst (group_init ex_closed 8 ''gfs'' 1 50 16 (Success 3) (Success 0) (Success 11)) = Inr 16 \<and>
   fst (group_get_fd ex_reopened 16) = Inr 3 \<and>
   new_events ex_reopened
     (snd (group_dispatch make_args ex_reopened 16 (ReadOk ''stop g1'') True)) =
     [SysRead 3 256, Callback 101 16 8 (StopArgs ''g1'')] \<and>
   fst (group_exit ex_reopened 16) = Inr 0 \<and>
   new_events ex_reopened (snd (group_exit ex_reopened 16)) = [SysClose 3]"
  by code_simp

subsection \<open>Opening a session\<close>

lemma init_fail_fresh:
  assumes "heap w0 m = None" and "heap w = (heap w0)(m \<mapsto> h)"
    and "fd h \<notin> fds w0" and "fds w = fds w0 \<or> fds w = insert (fd h) (fds w0)"
  shows "fst (init_fail w m h) = Inr NULL \<and> heap (snd (init_fail w m h)) = heap w0 \<and>
         fds (snd (init_fail w m h)) = fds w0 \<and>
         last (trace (snd (init_fail w m h))) = SysClose (fd h)"
  using assms by (auto simp: init_fail_def sys_close_def sys_free_def log_event_def Let_def)

text \<open>
  C6. When \<^verbatim>\<open>malloc\<close> has returned a new block and \<^verbatim>\<open>socket\<close> or \<^verbatim>\<open>connect\<close> fails,
  \<open>group_init\<close> returns \<open>NULL\<close>, and when it returns the heap is what it was before the
  call (the handle is freed) and so is the set of open descriptors (the descriptor that
  \<^verbatim>\<open>socket\<close> created is closed): the last system call is the \<^verbatim>\<open>close\<close> of \<^verbatim>\<open>h->fd\<close>.
  The hypothesis on \<open>ret_val sock\<close> says that what \<^verbatim>\<open>socket\<close> returns, a descriptor or
  \<open>-1\<close>, is not a descriptor already open.
\<close>

theorem group_init_failure_releases:
  assumes "m \<noteq> NULL" and "heap w m = None" and "cbmem w cbs_ptr = Some c"
    and "ret_val sock \<notin> fds w"
    and "ret_val sock < 0 \<or> ret_val conn < 0"
  shows "fst (group_init w priv pname lvl cbs_ptr m sock conn wr) = Inr NULL \<and>
         heap (snd (group_init w priv pname lvl cbs_ptr m sock conn wr)) = heap w \<and>
         fds (snd (group_init w priv pname lvl cbs_ptr m sock conn wr)) = fds w \<and>
         last (trace (snd (group_init w priv pname lvl cbs_ptr m sock conn wr))) =
           SysClose (ret_val sock)"
proof -
  define h where "h = \<lparr>magic = LIBGROUP_MAGIC, fd = ret_val sock, level = lvl,
    private_data = priv, cbs = c, prog_name = strncpy PROG_NAME_LEN pname\<rparr>"
  define w1 where "w1 = sys_socket (sys_malloc w m h) sock"
  define w2 where "w2 = sys_connect w1 (ret_val sock) conn"
  have fd: "fd h = ret_val sock" by (simp add: h_def)
  have heap1: "heap w1 = (heap w)(m \<mapsto> h)"
    by (simp add: w1_def sys_socket_fields sys_malloc_def)
  have fds1: "fds w1 = fds w \<or> fds w1 = insert (fd h) (fds w)"
    by (cases sock) (simp_all add: w1_def sys_socket_fields sys_malloc_def fd ret_val_def)
  have heap2: "heap w2 = (heap w)(m \<mapsto> h)"
    by (simp add: w2_def sys_connect_fields heap1)
  have fds2: "fds w2 = fds w \<or> fds w2 = insert (fd h) (fds w)"
    using fds1 by (simp add: w2_def sys_connect_fields)
  have fresh: "fd h \<notin> fds w" using assms(4) by (simp add: fd)
  note fail1 = init_fail_fresh [OF assms(2) heap1 fresh fds1]
  note fail2 = init_fail_fresh [OF assms(2) heap2 fresh fds2]
  have "group_init w priv pname lvl cbs_ptr m sock conn wr =
          (if fd h < 0 then init_fail w1 m h else init_fail w2 m h)"
    using assms(1,3,5)
    by (auto simp: group_init_def Let_def h_def [symmetric] w1_def [symmetric]
        w2_def [symmetric] fd)
  then show ?thesis
    using fail1 fail2 by (simp add: fd)
qed

theorem group_init_failure_releases_witness:
  "heap (ex_world False) 32 = None \<and> cbmem (ex_world False) 50 = Some ex_cbs \<and>
   ret_val (Success 4) \<notin> fds (ex_world False) \<and> ret_val (Failure 111) < 0 \<and>
   fst (group_init (ex_world False) 7 ''fenced'' 0 50 32 (Success 4) (Failure 111)
          (Success 14)) = Inr NULL \<and>
   heap (snd (group_init (ex_world False) 7 ''fenced'' 0 50 32 (Success 4) (Failure 111)
          (Success 14))) = heap (ex_world False) \<and>
   fds (snd (group_init (ex_world False) 7 ''fenced'' 0 50 32 (Success 4) (Failure 111)
          (Success 14))) = {3} \<and>
   last (trace (snd (group_init (ex_world False) 7 ''fenced'' 0 50 32 (Success 4)
          (Failure 111) (Success 14)))) = SysClose 4"
proof -
  have hyps: "32 \<noteq> NULL" "heap (ex_world False) 32 = None"
    "cbmem (ex_world False) 50 = Some ex_cbs" "ret_val (Success 4) \<notin> fds (ex_world False)"
    "ret_val (Success 4) < 0 \<or> ret_val (Failure 111) < 0"
    by (simp_all add: NULL_def ex_world_def ret_val_def)
  from group_init_failure_releases [OF hyps, of 7 "''fenced''" 0 "Success 14"] hyps
  show ?thesis
    by (simp add: ex_world_fields ret_val_def)
qed

lemma group_init_handshake:
  assumes "m \<noteq> NULL" and "cbmem w cbs_ptr = Some c"
    and "0 \<le> ret_val sock" and "0 \<le> ret_val conn"
    and "length (''setup '' @ c_str pname @ '' '' @ format_d lvl) < MAXLINE"
    and "h = \<lparr>magic = LIBGROUP_MAGIC, fd = ret_val sock, level = lvl,
      private_data = priv, cbs = c, prog_name = strncpy PROG_NAME_LEN pname\<rparr>"
    and "w3 = sys_write (sys_connect (sys_socket (sys_malloc w m h) sock)
      (ret_val sock) conn) (ret_val sock) (''setup '' @ c_str pname @ '' '' @ format_d lvl) wr"
  shows "group_init w priv pname lvl cbs_ptr m sock conn wr =
           (if ret_val wr < 0 then init_fail w3 m h else (Inr m, w3))"
proof -
  define msg where "msg = ''setup '' @ c_str pname @ '' '' @ format_d lvl"
  have nonul: "NUL \<notin> set msg"
    unfolding msg_def by (rule NUL_notin_setup)
  have fits: "length msg < MAXLINE"
    unfolding msg_def by (rule assms(5))
  have buf: "sprintf_buf msg = Inr (msg @ replicate (MAXLINE - length msg) NUL)"
    using fits by (rule sprintf_buf_fits)
  have line: "c_str (msg @ replicate (MAXLINE - length msg) NUL) = msg"
    using nonul by (rule c_str_padded)
  show ?thesis
    unfolding group_init_def Let_def msg_def [symmetric] buf assms(6,7)
    using assms(1-4)
    by (simp add: line)
qed

lemma init_world_fields:
  assumes "w3 = sys_write (sys_connect (sys_socket (sys_malloc w m h) sock)
      d conn) d msg wr"
  shows "trace w3 = trace w @ [SysSocket, SysConnect d, SysWrite d msg]"
    and "heap w3 = (heap w)(m \<mapsto> h)"
  by (simp_all add: assms sys_write_fields sys_connect_fields sys_socket_fields
      sys_malloc_def)

text \<open>
  C7, as stated, fails for a program name longer than 32 bytes: the handshake is
  formatted from the parameter \<^verbatim>\<open>prog_name\<close>, not from the truncated copy in
  \<^verbatim>\<open>h->prog_name\<close>. With the 43 bytes of \<open>long_name\<close> the line written holds the whole
  name; the line with the name cut to its first 32 bytes is not written.
\<close>

theorem handshake_name_not_truncated:
  "trace (snd (group_init (ex_world False) 7 long_name 1 50 32 (Success 4) (Success 0)
      (Success 51))) =
     [SysSocket, SysConnect 4,
      SysWrite 4 ''setup a_program_name_longer_than_thirty_two_bytes 1''] \<and>
   take PROG_NAME_LEN long_name = ''a_program_name_longer_than_thirt'' \<and>
   SysWrite 4 (''setup '' @ take PROG_NAME_LEN long_name @ '' '' @ format_d 1) \<notin>
     set (trace (snd (group_init (ex_world False) 7 long_name 1 50 32 (Success 4) (Success 0)
       (Success 51))))"
  by code_simp

text \<open>
  C7, amended. For every call of \<open>group_init\<close> that reaches the handshake (the handle is
  allocated, the callback structure is readable, \<^verbatim>\<open>socket\<close> and \<^verbatim>\<open>connect\<close> succeed, and
  the line fits the 256 bytes of \<^verbatim>\<open>buf\<close>), the system calls made are \<^verbatim>\<open>socket\<close>,
  \<^verbatim>\<open>connect\<close> and one \<^verbatim>\<open>write\<close> of the line \<^verbatim>\<open>setup\<close>, a space, the program name as it
  was passed (not truncated), a space, and the level in decimal; when that \<^verbatim>\<open>write\<close>
  fails the descriptor is closed and \<open>NULL\<close> returned, otherwise the handle is returned.
  Only the copy of the name kept in the handle's \<open>prog_name\<close> is cut to 32 bytes (or
  padded with NUL to 32 bytes).
\<close>

theorem group_init_handshake_full_name:
  assumes "m \<noteq> NULL" and "cbmem w cbs_ptr = Some c"
    and "0 \<le> ret_val sock" and "0 \<le> ret_val conn"
    and "length (''setup '' @ c_str pname @ '' '' @ format_d lvl) < MAXLINE"
  shows "fst (group_init w priv pname lvl cbs_ptr m sock conn wr) =
           (if ret_val wr < 0 then Inr NULL else Inr m) \<and>
         trace (snd (group_init w priv pname lvl cbs_ptr m sock conn wr)) =
           trace w @
             [SysSocket, SysConnect (ret_val sock),
              SysWrite (ret_val sock) (''setup '' @ c_str pname @ '' '' @ format_d lvl)] @
             (if ret_val wr < 0 then [SysClose (ret_val sock)] else []) \<and>
         (0 \<le> ret_val wr \<longrightarrow>
            map_option prog_name
              (heap (snd (group_init w priv pname lvl cbs_ptr m sock conn wr)) m) =
            Some (take PROG_NAME_LEN (c_str pname @ replicate PROG_NAME_LEN NUL)))"
proof -
  define msg where "msg = ''setup '' @ c_str pname @ '' '' @ format_d lvl"
  define h where "h = \<lparr>magic = LIBGROUP_MAGIC, fd = ret_val sock, level = lvl,
    private_data = priv, cbs = c, prog_name = strncpy PROG_NAME_LEN pname\<rparr>"
  define w3 where "w3 = sys_write (sys_connect (sys_socket (sys_malloc w m h)
    sock) (ret_val sock) conn) (ret_val sock) msg wr"
  have init: "group_init w priv pname lvl cbs_ptr m sock conn wr =
          (if ret_val wr < 0 then init_fail w3 m h else (Inr m, w3))"
    using assms h_def w3_def [unfolded msg_def] by (rule group_init_handshake)
  note w3 = init_world_fields [OF w3_def]
  have fd: "fd h = ret_val sock" by (simp add: h_def)
  have fail: "fst (init_fail w3 m h) = Inr NULL"
    "trace (snd (init_fail w3 m h)) = trace w3 @ [SysClose (ret_val sock)]"
    by (simp_all add: init_fail_def Let_def sys_close_def sys_free_def log_event_def fd)
  have name: "prog_name h = take PROG_NAME_LEN (c_str pname @ replicate PROG_NAME_LEN NUL)"
    by (simp add: h_def strncpy_def)
  show ?thesis
    unfolding init msg_def [symmetric] using w3 fail name
    by simp
qed

theorem group_init_handshake_full_name_witness:
  "cbmem (ex_world False) 50 = Some ex_cbs \<and>
   length (''setup '' @ c_str long_name @ '' '' @ format_d 1) = 51 \<and>
   fst (group_init (ex_world False) 7 long_name 1 50 32 (Success 4) (Success 0)
      (Success 51)) = Inr 32 \<and>
   trace (snd (group_init (ex_world False) 7 long_name 1 50 32 (Success 4) (Success 0)
      (Success 51))) =
     [SysSocket, SysConnect 4,
      SysWrite 4 ''setup a_program_name_longer_than_thirty_two_bytes 1''] \<and>
   map_option prog_name
     (heap (snd (group_init (ex_world False) 7 long_name 1 50 32 (Success 4) (Success 0)
        (Success 51))) 32) =
     Some ''a_program_name_longer_than_thirt''"
proof -
  have msg: "''setup '' @ c_str long_name @ '' '' @ format_d 1 =
      ''setup a_program_name_longer_than_thirty_two_bytes 1''"
    by code_simp
  have name: "take PROG_NAME_LEN (c_str long_name @ replicate PROG_NAME_LEN NUL) =
      ''a_program_name_longer_than_thirt''"
    by code_simp
  have hyps: "32 \<noteq> NULL" "cbmem (ex_world False) 50 = Some ex_cbs"
    "0 \<le> ret_val (Success 4)" "0 \<le> ret_val (Success 0)"
    "length (''setup '' @ c_str long_name @ '' '' @ format_d 1) < MAXLINE"
    unfolding msg by (simp_all add: NULL_def ex_world_def ret_val_def MAXLINE_def)
  from group_init_handshake_full_name [OF hyps, of 7 "Success 51"] hyps(2)
  show ?thesis
    unfolding msg name by (simp add: ret_val_def ex_world_fields)
qed

subsection \<open>The callbacks of a session\<close>

lemma group_init_returns_handle:
  assumes "group_init w0 priv pname lvl cbs_ptr m sock conn wr = (Inr handle, w)"
    and "handle \<noteq> NULL" and "cbmem w0 cbs_ptr = Some c"
  shows "\<exists>h. heap w handle = Some h \<and> magic h = LIBGROUP_MAGIC \<and> cbs h = c"
  using assms
  by (auto simp: group_init_def Let_def init_fail_def sys_write_fields sys_connect_fields
      sys_socket_fields sys_malloc_def split: if_splits sum.splits)

lemma dispatch_callbacks:
  assumes "handle \<noteq> NULL" and "heap w handle = Some h" and "magic h = LIBGROUP_MAGIC"
    and "Callback f x p args \<in>
           set (new_events w (snd (group_dispatch mk_args w handle rd alloc_ok)))"
  shows "f = handler_of (cbs h) args \<and> x = handle \<and> p = private_data h"
  using assms(4)
  unfolding group_dispatch_def validate_live [OF assms(1-3)] Let_def
  by (auto simp: new_events_def sys_read_fields invoke_fields handler_of_def
      split: if_splits sum.splits option.splits)

text \<open>
  C8, as stated, fails: \<open>group_init\<close> copies the structure (\<^verbatim>\<open>h->cbs = *cbs\<close>). In
  \<open>ex_changed\<close> the application has replaced its callback structure, whose \<open>stop\<close> member
  is now 201, after the session at address 32 was opened; \<open>group_dispatch\<close> of a
  \<^verbatim>\<open>stop\<close> line calls 101, the \<open>stop\<close> member the structure had at \<open>group_init\<close>.
\<close>

theorem dispatch_ignores_later_callbacks:
  "fst (group_init (ex_world False) 9 ''gfs'' 1 50 32 (Success 4) (Success 0) (Success 11)) =
     Inr 32 \<and>
   map_option stop (cbmem ex_changed 50) = Some 201 \<and>
   new_events ex_changed
     (snd (group_dispatch make_args ex_changed 32 (ReadOk ''stop g1'') True)) =
     [SysRead 4 256, Callback 101 32 9 (StopArgs ''g1'')]"
  by code_simp

lemma heap_group_join: "heap (snd (group_join w handle name info wr)) = heap w"
  unfolding group_join_def
  by (rule heap_validate) (simp add: sys_write_fields split: sum.splits)

lemma heap_group_leave: "heap (snd (group_leave w handle name info wr)) = heap w"
  unfolding group_leave_def
  by (rule heap_validate) (simp add: sys_write_fields split: sum.splits)

lemma heap_group_done: "heap (snd (group_done w handle name event_nr wr)) = heap w"
  unfolding group_done_def
  by (rule heap_validate) (simp add: sys_write_fields split: sum.splits)

lemma heap_group_get_fd: "heap (snd (group_get_fd w handle)) = heap w"
  unfolding group_get_fd_def
  by (rule heap_validate) simp

lemma heap_group_dispatch: "heap (snd (group_dispatch mk_args w handle rd alloc_ok)) = heap w"
  unfolding group_dispatch_def
  by (rule heap_validate)
    (simp add: Let_def sys_read_fields invoke_fields split: sum.splits option.splits)

lemma heap_group_exit_other:
  "handle' \<noteq> handle \<Longrightarrow> heap (snd (group_exit w handle')) handle = heap w handle"
  by (simp add: group_exit_def VALIDATE_HANDLE_def Let_def store_handle_def sys_close_def
      sys_free_def log_event_def split: option.splits)

lemma heap_init_fail_other:
  "m \<noteq> handle \<Longrightarrow> heap (snd (init_fail w m h)) handle = heap w handle"
  by (simp add: init_fail_def Let_def sys_close_def sys_free_def log_event_def)

lemma heap_group_init_other:
  "m \<noteq> handle \<Longrightarrow>
     heap (snd (group_init w priv pname lvl cbs_ptr m sock conn wr)) handle = heap w handle"
  by (simp add: group_init_def Let_def heap_init_fail_other sys_write_fields
      sys_connect_fields sys_socket_fields sys_malloc_def split: option.splits sum.splits)

lemma heap_step:
  "keeps handle c \<Longrightarrow> heap (snd (step mk_args w c)) handle = heap w handle"
  by (cases c)
    (simp_all add: step_def keeps_def heap_group_join heap_group_leave heap_group_done
      heap_group_get_fd heap_group_dispatch heap_group_exit_other heap_group_init_other)

lemma heap_run:
  "list_all (keeps handle) cs \<Longrightarrow> heap (run mk_args w cs) handle = heap w handle"
  by (induction cs arbitrary: w) (simp_all add: heap_step)

text \<open>
  C8, amended. The session holds a copy of the callback structure, made by \<open>group_init\<close>.
  After a successful \<open>group_init\<close> with a structure \<open>c\<close>, and after any sequence of calls
  of the library and of stores of the application into its callback structures that
  leaves the session open, every callback that a \<open>group_dispatch\<close> on the session invokes
  is the member of \<open>c\<close> for the event, whatever the application's structure holds by then.
\<close>

theorem dispatch_uses_copy_made_by_init:
  assumes "group_init w0 priv pname lvl cbs_ptr m sock conn wr = (Inr handle, w)"
    and "handle \<noteq> NULL" and "cbmem w0 cbs_ptr = Some c"
    and "list_all (keeps handle) calls"
    and "Callback f x p args \<in>
           set (new_events (run mk_args w calls)
             (snd (group_dispatch mk_args (run mk_args w calls) handle rd alloc_ok)))"
  shows "f = handler_of c args"
proof -
  from group_init_returns_handle [OF assms(1-3)]
  obtain h where h: "heap w handle = Some h" "magic h = LIBGROUP_MAGIC" "cbs h = c"
    by blast
  from h(1) assms(4) have "heap (run mk_args w calls) handle = Some h"
    by (simp add: heap_run)
  from dispatch_callbacks [OF assms(2) this h(2) assms(5)] h(3)
  show ?thesis by simp
qed

theorem dispatch_uses_copy_made_by_init_witness:
  "group_init (ex_world False) 9 ''gfs'' 1 50 32 (Success 4) (Success 0) (Success 11) =
     (Inr 32, ex_opened) \<and>
   cbmem (ex_world False) 50 = Some ex_cbs \<and>
   list_all (keeps 32) ex_calls \<and>
   map_option stop (cbmem (run make_args ex_opened ex_calls) 50) = Some 201 \<and>
   new_events ex_opened (run make_args ex_opened ex_calls) =
     [SysRead 4 256, Callback 103 32 9 (FinishArgs ''g1'' 3),
      SysRead 4 256, Callback 105 32 9 (SetIdArgs ''g1'' 7)] \<and>
   Callback 101 32 9 (StopArgs ''g1'') \<in>
     set (new_events (run make_args ex_opened ex_calls)
       (snd (group_dispatch make_args (run make_args ex_opened ex_calls) 32
          (ReadOk ''stop g1'') True))) \<and>
   handler_of ex_cbs (StopArgs ''g1'') = 101 \<and>
   handler_of ex_cbs2 (StopArgs ''g1'') = 201"
proof -
  have "fst (group_init (ex_world False) 9 ''gfs'' 1 50 32 (Success 4) (Success 0)
      (Success 11)) = Inr 32"
    by code_simp
  then have init: "group_init (ex_world False) 9 ''gfs'' 1 50 32 (Success 4) (Success 0)
      (Success 11) = (Inr 32, ex_opened)"
    by (simp add: ex_opened_def prod_eq_iff)
  have calls: "list_all (keeps 32) ex_calls"
    by code_simp
  have cb: "Callback 101 32 9 (StopArgs ''g1'') \<in>
      set (new_events (run make_args ex_opened ex_calls)
        (snd (group_dispatch make_args (run make_args ex_opened ex_calls) 32
           (ReadOk ''stop g1'') True)))"
    by code_simp
  have hyps: "32 \<noteq> NULL" "cbmem (ex_world False) 50 = Some ex_cbs"
    by (simp_all add: NULL_def ex_world_def)
  have now: "map_option stop (cbmem (run make_args ex_opened ex_calls) 50) = Some 201"
    by code_simp
  have before: "new_events ex_opened (run make_args ex_opened ex_calls) =
     [SysRead 4 256, Callback 103 32 9 (FinishArgs ''g1'' 3),
      SysRead 4 256, Callback 105 32 9 (SetIdArgs ''g1'' 7)]"
    by code_simp
  from dispatch_uses_copy_made_by_init [OF init hyps calls cb]
  have "101 = handler_of ex_cbs (StopArgs ''g1'')" .
  moreover have "handler_of ex_cbs2 (StopArgs ''g1'') = 201"
    by (simp add: handler_of_def ex_cbs2_def)
  ultimately show ?thesis
    using init hyps(2) calls cb now before by simp
qed

end
